theory Spec2Isabelle
  imports Complex_Main "HOL-Library.List_Lexorder" "HOL-Library.Code_Target_Nat"
begin

section \<open>The retry executor of \<open>dbs/helper_functions.py\<close>\<close>

subsection \<open>Data model\<close>

text \<open>
  The two f-strings of \<open>retry_with_backoff\<close> have a fixed text; a message is determined
  by the values interpolated into it, which the constructors carry:
  \<^item> \<open>MaxRetriesMsg func_name e\<close> is the text built on the last attempt;
  \<^item> \<open>AttemptMsg (attempt + 1) func_name e delay\<close> is the text built before a retry.
\<close>

datatype 'e message =
    MaxRetriesMsg string 'e
  | AttemptMsg nat string 'e real

text \<open>
  The effects of one call, in the order in which they happen: a call of \<open>func()\<close>, a
  call of \<open>random.random()\<close>, \<open>logger.error(msg)\<close>, \<open>logger.warning(msg)\<close>,
  \<open>print(msg)\<close> and a completed \<open>time.sleep(delay)\<close>.
\<close>

datatype 'e event =
    Invoke
  | RandomDraw
  | LoggerError "'e message"
  | LoggerWarning "'e message"
  | Print "'e message"
  | Sleep real

text \<open>
  How the call ends: \<open>return func()\<close>; an exception of \<open>func\<close> leaving the function
  (re-raised by \<open>raise\<close>, or never caught); the end of the \<open>while\<close> loop (Python then
  returns \<open>None\<close>); the \<open>ValueError\<close> that \<open>time.sleep\<close> raises for a negative
  argument; the \<open>OverflowError\<close> that line 53 raises when the integer \<open>2 ** attempt\<close> is
  too large to be converted to a float. The last two are raised inside the handler and
  leave the function.
\<close>

datatype ('e, 'a) outcome =
    Return 'a
  | Raise 'e
  | ReturnNone
  | SleepValueError
  | OverflowError

text \<open>
  The arguments of \<open>retry_with_backoff\<close>, with what it reads from its environment.
  \<^item> \<open>func k\<close> is what the call of \<open>func()\<close> made on attempt \<open>k\<close> does: it raises
    (\<open>Inl e\<close>) or returns (\<open>Inr v\<close>). Every iteration of the loop makes exactly one call.
  \<^item> \<open>func_name\<close> is \<open>func.__name__\<close>, which a Python function always has.
  \<^item> \<open>logger\<close> is the truth value of the \<open>logger\<close> argument (\<open>None\<close> is false). Its
    methods and \<open>print\<close> write the message and return.
  \<^item> \<open>base_delay\<close> and \<open>max_delay\<close> are the values of the two numbers;
    \<open>base_delay_is_float\<close> tells whether \<open>base_delay\<close> is a Python float rather than an
    int.
  \<^item> \<open>exceptions e\<close> tells whether \<open>e\<close> is an instance of a class of the tuple.
  \<^item> \<open>random_values k\<close> is what \<open>random.random()\<close> returns when it is called on attempt
    \<open>k\<close>.
  \<^item> \<open>float_round x\<close> is the double that the floating-point unit gives for the exact
    result \<open>x\<close> of an operation on floats.
\<close>

record ('e, 'a) retry_args =
  func :: "nat \<Rightarrow> 'e + 'a"
  func_name :: string
  logger :: bool
  max_retries :: int
  base_delay :: real
  base_delay_is_float :: bool
  max_delay :: real
  exceptions :: "'e \<Rightarrow> bool"
  jitter :: bool
  random_values :: "nat \<Rightarrow> real"
  float_round :: "real \<Rightarrow> real"

subsection \<open>The loop\<close>

text \<open>
  Line 53, \<open>base_delay * (2 ** attempt)\<close>. The power is an exact integer. With an integer
  \<open>base_delay\<close> the product is an exact integer too. With a float \<open>base_delay\<close> the power
  is first converted to a float, which raises \<open>OverflowError\<close> from \<open>2 ** 1024\<close> on.
\<close>

definition delay_overflows :: "('e, 'a) retry_args \<Rightarrow> nat \<Rightarrow> bool" where
  "delay_overflows args attempt = (base_delay_is_float args \<and> 1024 \<le> attempt)"

text \<open>
  Lines 53 to 57, when line 53 does not raise. The product of a float by a power of two
  is exact; where it would exceed the largest double the code has \<open>inf\<close>, which \<open>min\<close>
  replaces by \<open>max_delay\<close>, as it does the exact product. With jitter, the three
  floating-point operations of line 55 to 57 each round their result, and \<open>delay\<close> is
  converted to a float when it is an integer.
\<close>

definition backoff_delay :: "('e, 'a) retry_args \<Rightarrow> nat \<Rightarrow> real" where
  "backoff_delay args attempt =
     (let delay = min (max_delay args) (base_delay args * 2 ^ attempt)
      in if jitter args
         then float_round args
                (float_round args delay *
                 float_round args (0.5 + float_round args (random_values args attempt / 2)))
         else delay)"

text \<open>Line 56 runs only when \<open>jitter\<close> is true.\<close>

definition draw_events :: "('e, 'a) retry_args \<Rightarrow> 'e event list" where
  "draw_events args = (if jitter args then [RandomDraw] else [])"

text \<open>Lines 47 to 50 and lines 60 to 63: the logger when there is one, \<open>print\<close> otherwise.\<close>

definition log_error :: "('e, 'a) retry_args \<Rightarrow> 'e message \<Rightarrow> 'e event" where
  "log_error args msg = (if logger args then LoggerError msg else Print msg)"

definition log_warning :: "('e, 'a) retry_args \<Rightarrow> 'e message \<Rightarrow> 'e event" where
  "log_warning args msg = (if logger args then LoggerWarning msg else Print msg)"

text \<open>
  The \<open>while\<close> loop of lines 40 to 65, from the value \<open>attempt\<close> of the counter (which
  starts at 0 and only grows, so it is a natural number).
\<close>

function retry_loop ::
  "('e, 'a) retry_args \<Rightarrow> nat \<Rightarrow> 'e event list \<times> ('e, 'a) outcome" where
  "retry_loop args attempt =
     (if int attempt \<le> max_retries args then
        (case func args attempt of
           Inr v \<Rightarrow> ([Invoke], Return v)
         | Inl e \<Rightarrow>
             if \<not> exceptions args e then ([Invoke], Raise e)
             else if int attempt = max_retries args then
               ([Invoke, log_error args (MaxRetriesMsg (func_name args) e)], Raise e)
             else if delay_overflows args attempt then ([Invoke], OverflowError)
             else
               (let delay = backoff_delay args attempt;
                    msg = AttemptMsg (attempt + 1) (func_name args) e delay;
                    evs = Invoke # draw_events args @ [log_warning args msg]
                in if delay < 0 then (evs, SleepValueError)
                   else (case retry_loop args (attempt + 1) of
                           (tr, r) \<Rightarrow> (evs @ Sleep delay # tr, r))))
      else ([], ReturnNone))"
  by pat_completeness auto
termination
  by (relation "measure (\<lambda>(args, attempt). nat (max_retries args + 1 - int attempt))") auto

declare retry_loop.simps [simp del]

definition retry_with_backoff ::
  "('e, 'a) retry_args \<Rightarrow> 'e event list \<times> ('e, 'a) outcome" where
  "retry_with_backoff args = retry_loop args 0"

subsection \<open>Floating-point rounding\<close>


text \<open>
  A rounding to run examples with: to the nearest multiple of \<open>2 ^ - 53\<close>, the spacing of
  the doubles between 1/2 and 1.
\<close>

definition round53 :: "real \<Rightarrow> real" where
  "round53 x = of_int (round (x * 2 ^ 53)) / 2 ^ 53"

subsection \<open>Reading a trace\<close>

text \<open>The number of calls of \<open>func()\<close>.\<close>

definition invocations :: "'e event list \<Rightarrow> nat" where
  "invocations tr = length (filter (\<lambda>ev. ev = Invoke) tr)"

text \<open>The arguments of the completed calls of \<open>time.sleep\<close>, in order.\<close>

fun sleeps :: "'e event list \<Rightarrow> real list" where
  "sleeps [] = []"
| "sleeps (Sleep d # tr) = d # sleeps tr"
| "sleeps (_ # tr) = sleeps tr"

text \<open>
  The report of the last attempt (\<open>logger.error\<close>, or the printed text of line 45) and
  the report of a retry (\<open>logger.warning\<close>, or the printed text of line 58).
\<close>

fun is_error_log :: "'e event \<Rightarrow> bool" where
  "is_error_log (LoggerError _) = True"
| "is_error_log (Print (MaxRetriesMsg _ _)) = True"
| "is_error_log _ = False"

fun is_warning_log :: "'e event \<Rightarrow> bool" where
  "is_warning_log (LoggerWarning _) = True"
| "is_warning_log (Print (AttemptMsg _ _ _ _)) = True"
| "is_warning_log _ = False"

text \<open>The messages handed to the logger, and the messages handed to \<open>print\<close>.\<close>

fun logged :: "'e event list \<Rightarrow> 'e message list" where
  "logged [] = []"
| "logged (LoggerError m # tr) = m # logged tr"
| "logged (LoggerWarning m # tr) = m # logged tr"
| "logged (_ # tr) = logged tr"

fun printed :: "'e event list \<Rightarrow> 'e message list" where
  "printed [] = []"
| "printed (Print m # tr) = m # printed tr"
| "printed (_ # tr) = printed tr"

text \<open>The same effect with \<open>print\<close> in the place of the logger.\<close>

fun print_instead :: "'e event \<Rightarrow> 'e event" where
  "print_instead (LoggerError m) = Print m"
| "print_instead (LoggerWarning m) = Print m"
| "print_instead ev = ev"

section \<open>The ticker list\<close>

text \<open>
  A Python \<open>str\<close> is the list of its code points, which are natural numbers; \<open>len\<close> counts
  them and \<open>sorted\<close> compares texts code point by code point. \<open>str_lit\<close> is the text of an
  ASCII literal of the source.
\<close>

type_synonym pystr = "nat list"

definition str_lit :: "string \<Rightarrow> pystr" where
  "str_lit s = map of_char s"

text \<open>The four texts that \<open>get_ndaq_tickers\<close> prints.\<close>

datatype 'e notice =
    Scraped_ok nat
  | Count_warning nat
  | Scrape_error 'e
  | Using_fallback

text \<open>
  What \<open>get_ndaq_tickers\<close> meets when it runs.
  \<^item> \<open>scraped\<close> is what the fetching and parsing of lines 80 to 100 do: they raise an
    exception (\<open>Inl e\<close>), or they run to the end and \<open>Inr cells\<close> is the sequence of the
    values of \<open>text\<close> that the innermost loop sees, in the order of the three nested loops.
  \<^item> \<open>isalpha\<close> and \<open>isupper\<close> are Python's \<open>str.isalpha\<close> and \<open>str.isupper\<close>.
  \<^item> \<open>is_Exception e\<close> tells whether \<open>e\<close> is an instance of \<open>Exception\<close>, which
    \<open>KeyboardInterrupt\<close> and \<open>SystemExit\<close> are not.
  \<^item> \<open>print_error n\<close> is \<open>None\<close> when printing the text \<open>n\<close> succeeds, and the exception
    that \<open>print\<close> raises otherwise.
\<close>

record 'e scrape_env =
  scraped :: "'e + pystr list"
  isalpha :: "pystr \<Rightarrow> bool"
  isupper :: "pystr \<Rightarrow> bool"
  is_Exception :: "'e \<Rightarrow> bool"
  print_error :: "'e notice \<Rightarrow> 'e option"

text \<open>Lines 94 to 105: the cell texts that are kept.\<close>

definition collect_tickers :: "'e scrape_env \<Rightarrow> pystr list \<Rightarrow> pystr list" where
  "collect_tickers env cells =
     filter (\<lambda>text. (text \<noteq> [] \<and> length text \<le> 5 \<and> isupper env text \<and> isalpha env text) \<and>
                     text \<notin> set (map str_lit
                       [''TICKER'', ''SYMBOL'', ''COMPANY'', ''NAME'', ''WEIGHT'']))
       cells"

definition get_ndaq_tickers_fallback :: "pystr list" where
  "get_ndaq_tickers_fallback = map str_lit
    [''AAPL'', ''MSFT'', ''GOOGL'', ''GOOG'', ''AMZN'', ''NVDA'', ''META'', ''TSLA'', ''NFLX'', ''ADBE'',
     ''CRM'', ''PEP'', ''COST'', ''AVGO'', ''CSCO'', ''TMUS'', ''INTC'', ''AMD'', ''QCOM'', ''INTU'',
     ''HON'', ''ISRG'', ''GILD'', ''MDLZ'', ''ADP'', ''PYPL'', ''REGN'', ''VRTX'', ''ABNB'', ''KLAC'',
     ''SNPS'', ''PANW'', ''CDNS'', ''MU'', ''ORLY'', ''MNST'', ''KDP'', ''LRCX'', ''ASML'', ''CHTR'',
     ''MAR'', ''MELI'', ''FTNT'', ''CTAS'', ''ODFL'', ''PAYX'', ''ROST'', ''IDXX'', ''BIIB'', ''FAST'',
     ''VRSK'', ''WDAY'', ''DXCM'', ''CPRT'', ''XEL'', ''PCAR'', ''ALGN'', ''SIRI'', ''MRVL'', ''ZS'',
     ''LCID'', ''JD'', ''PDD'', ''BIDU'', ''NTES'', ''TCOM'', ''WBA'', ''EA'', ''UBER'',
     ''LYFT'', ''DASH'', ''RIVN'', ''PLTR'', ''SNOW'', ''CRWD'', ''OKTA'', ''TEAM'', ''SPOT'',
     ''PINS'', ''SNAP'', ''BYND'', ''PTON'', ''DOCU'', ''RBLX'', ''ZM'']"

text \<open>
  One call of \<open>print\<close>: the text is written (and added to the notices) and the
  continuation runs, or \<open>print\<close> raises.
\<close>

definition print_then ::
  "'e scrape_env \<Rightarrow> 'e notice \<Rightarrow> 'e notice list \<times> ('e + pystr list) \<Rightarrow>
   'e notice list \<times> ('e + pystr list)" where
  "print_then env n rest =
     (case print_error env n of
        Some e \<Rightarrow> ([], Inl e)
      | None \<Rightarrow> (n # fst rest, snd rest))"

text \<open>
  The body of the \<open>try\<close>, lines 79 to 116: the notices printed, and the exception raised
  (\<open>Inl\<close>) or the list returned (\<open>Inr\<close>).
\<close>

definition try_body :: "'e scrape_env \<Rightarrow> 'e notice list \<times> ('e + pystr list)" where
  "try_body env =
     (case scraped env of
        Inl e \<Rightarrow> ([], Inl e)
      | Inr cells \<Rightarrow>
          (let tickers = sort (remdups (collect_tickers env cells))
           in if length tickers \<ge> 80 \<and> length tickers \<le> 120
              then print_then env (Scraped_ok (length tickers)) ([], Inr tickers)
              else print_then env (Count_warning (length tickers))
                     ([], Inr get_ndaq_tickers_fallback)))"

text \<open>
  \<open>get_ndaq_tickers\<close>: the \<open>try\<close> with its handler \<open>except Exception as e\<close> of lines 118 to
  121, which an exception that is not an instance of \<open>Exception\<close> passes through.
\<close>

definition get_ndaq_tickers :: "'e scrape_env \<Rightarrow> 'e notice list \<times> ('e + pystr list)" where
  "get_ndaq_tickers env =
     (case try_body env of
        (ns, Inr tickers) \<Rightarrow> (ns, Inr tickers)
      | (ns, Inl e) \<Rightarrow>
          if is_Exception env e
          then (case print_then env (Scrape_error e)
                       (print_then env Using_fallback ([], Inr get_ndaq_tickers_fallback)) of
                  (ms, r) \<Rightarrow> (ns @ ms, r))
          else (ns, Inl e))"

text \<open>
  The restrictions of \<open>str.isalpha\<close> and \<open>str.isupper\<close> to ASCII texts, to run examples
  with: a non-empty text of letters; a text with an upper-case letter and no lower-case
  one.
\<close>

definition isalpha_ascii :: "pystr \<Rightarrow> bool" where
  "isalpha_ascii text =
     (text \<noteq> [] \<and> list_all (\<lambda>c. (65 \<le> c \<and> c \<le> 90) \<or> (97 \<le> c \<and> c \<le> 122)) text)"

definition isupper_ascii :: "pystr \<Rightarrow> bool" where
  "isupper_ascii text =
     (list_ex (\<lambda>c. 65 \<le> c \<and> c \<le> 90) text \<and> \<not> list_ex (\<lambda>c. 97 \<le> c \<and> c \<le> 122) text)"

section \<open>Properties of the retry executor\<close>

subsection \<open>One iteration of the loop\<close>

lemma retry_loop_done:
  "max_retries args < int attempt \<Longrightarrow> retry_loop args attempt = ([], ReturnNone)"
  by (simp add: retry_loop.simps)


lemma retry_loop_propagate:
  "int attempt \<le> max_retries args \<Longrightarrow> func args attempt = Inl e \<Longrightarrow>
   \<not> exceptions args e \<Longrightarrow> retry_loop args attempt = ([Invoke], Raise e)"
  by (simp add: retry_loop.simps)



lemma retry_loop_sleep_error:
  "int attempt < max_retries args \<Longrightarrow> func args attempt = Inl e \<Longrightarrow> exceptions args e \<Longrightarrow>
   \<not> delay_overflows args attempt \<Longrightarrow> backoff_delay args attempt < 0 \<Longrightarrow>
   retry_loop args attempt =
     (Invoke # draw_events args @
        [log_warning args
           (AttemptMsg (attempt + 1) (func_name args) e (backoff_delay args attempt))],
      SleepValueError)"
  by (simp add: retry_loop.simps [of args attempt] Let_def)


lemma delay_overflows_update [simp]:
  "delay_overflows (args\<lparr>random_values := r\<rparr>) attempt = delay_overflows args attempt"
  "delay_overflows (args\<lparr>logger := b\<rparr>) attempt = delay_overflows args attempt"
  by (simp_all add: delay_overflows_def)

lemma backoff_delay_update [simp]:
  "backoff_delay (args\<lparr>logger := b\<rparr>) attempt = backoff_delay args attempt"
  by (simp add: backoff_delay_def Let_def)

subsection \<open>Rounding\<close>






subsection \<open>Projections of a trace\<close>


lemma sleeps_draw_events [simp]: "sleeps (draw_events args) = []"
  by (simp add: draw_events_def)

lemma sleeps_log [simp]:
  "sleeps (log_warning args m # tr) = sleeps tr"
  "sleeps (log_error args m # tr) = sleeps tr"
  by (simp_all add: log_warning_def log_error_def)

lemma invocations_simps [simp]:
  "invocations [] = 0"
  "invocations (Invoke # tr) = Suc (invocations tr)"
  "invocations (RandomDraw # tr) = invocations tr"
  "invocations (LoggerError m # tr) = invocations tr"
  "invocations (LoggerWarning m # tr) = invocations tr"
  "invocations (Print m # tr) = invocations tr"
  "invocations (Sleep d # tr) = invocations tr"
  "invocations (xs @ ys) = invocations xs + invocations ys"
  by (simp_all add: invocations_def)

lemma invocations_draw_events [simp]: "invocations (draw_events args) = 0"
  by (simp add: draw_events_def)

lemma invocations_log [simp]:
  "invocations (log_warning args m # tr) = invocations tr"
  "invocations (log_error args m # tr) = invocations tr"
  by (simp_all add: log_warning_def log_error_def)

lemma is_log_simps [simp]:
  "is_error_log (log_error args (MaxRetriesMsg nm e))"
  "\<not> is_warning_log (log_error args (MaxRetriesMsg nm e))"
  "is_warning_log (log_warning args (AttemptMsg k nm e d))"
  "\<not> is_error_log (log_warning args (AttemptMsg k nm e d))"
  by (simp_all add: log_warning_def log_error_def)

lemma filter_log_draw_events [simp]:
  "filter is_error_log (draw_events args) = []"
  "filter is_warning_log (draw_events args) = []"
  by (simp_all add: draw_events_def)

subsection \<open>An operation that always fails\<close>






subsection \<open>An exception that the tuple does not match\<close>

text \<open>
  Claim C4. If the first call of the operation raises an exception that is not an instance
  of the \<open>exceptions\<close> tuple, the whole run is that one call: no sleep, no random draw, no
  log, and the exception itself reaches the caller.
\<close>

theorem retry_non_retryable:
  assumes "0 \<le> max_retries args"
    and "func args 0 = Inl e"
    and "\<not> exceptions args e"
  shows "retry_with_backoff args = ([Invoke], Raise e) \<and>
         invocations (fst (retry_with_backoff args)) = 1 \<and>
         sleeps (fst (retry_with_backoff args)) = []"
  using assms by (simp add: retry_with_backoff_def retry_loop_propagate)

theorem retry_non_retryable_witness:
  "retry_with_backoff
      \<lparr>func = (\<lambda>k. Inl (k = 0)), func_name = ''fetch'', logger = True, max_retries = 5,
       base_delay = 1, base_delay_is_float = False, max_delay = 30,
       exceptions = (\<lambda>e. \<not> e), jitter = True, random_values = (\<lambda>_. 1 / 2),
       float_round = round53\<rparr> = ([Invoke], Raise True :: (bool, unit) outcome)"
  using retry_non_retryable
    [of "\<lparr>func = (\<lambda>k. Inl (k = 0)), func_name = ''fetch'', logger = True, max_retries = 5,
       base_delay = 1, base_delay_is_float = False, max_delay = 30,
       exceptions = (\<lambda>e. \<not> e), jitter = True, random_values = (\<lambda>_. 1 / 2),
       float_round = round53\<rparr> :: (bool, unit) retry_args" True]
  by simp

subsection \<open>A negative number of retries\<close>

text \<open>
  Claim C9. For every \<open>max_retries < 0\<close> the loop guard is false on entry: the operation is
  never called, nothing is slept, drawn or logged, and the call returns \<open>None\<close> without an
  error.
\<close>

theorem retry_negative_max_retries:
  assumes "max_retries args < 0"
  shows "retry_with_backoff args = ([], ReturnNone)"
  using assms by (simp add: retry_with_backoff_def retry_loop_done)

theorem retry_negative_max_retries_witness:
  "retry_with_backoff
      \<lparr>func = (\<lambda>k. Inr k), func_name = ''fetch'', logger = True, max_retries = - 1,
       base_delay = 1, base_delay_is_float = False, max_delay = 30,
       exceptions = (\<lambda>_. True), jitter = True, random_values = (\<lambda>_. 1 / 2),
       float_round = round53\<rparr> = ([], ReturnNone :: (unit, nat) outcome)"
  using retry_negative_max_retries
    [of "\<lparr>func = (\<lambda>k. Inr k), func_name = ''fetch'', logger = True, max_retries = - 1,
       base_delay = 1, base_delay_is_float = False, max_delay = 30,
       exceptions = (\<lambda>_. True), jitter = True, random_values = (\<lambda>_. 1 / 2),
       float_round = round53\<rparr> :: (unit, nat) retry_args"]
  by simp

subsection \<open>An operation that succeeds after some failures\<close>





subsection \<open>The delays\<close>




subsection \<open>The clamp scenario\<close>

text \<open>
  Claim C5. With \<open>base_delay = 10\<close>, \<open>max_delay = 15\<close>, \<open>max_retries = 3\<close>, no jitter and
  an operation whose every call raises a matched exception, the sleeps are 10, 15, 15 in
  that order (the unclamped products are 10, 20, 40), the operation is called 4 times,
  the exception of the fourth call is raised to the caller, and it is the one reported at
  error severity.
\<close>

theorem clamp_scenario:
  "sleeps (fst (retry_with_backoff
      \<lparr>func = (\<lambda>k. Inl (err k)), func_name = nm, logger = lg, max_retries = 3,
       base_delay = 10, base_delay_is_float = bf, max_delay = 15,
       exceptions = (\<lambda>_. True), jitter = False, random_values = rv,
       float_round = fl\<rparr>)) = [10, 15, 15] \<and>
   invocations (fst (retry_with_backoff
      \<lparr>func = (\<lambda>k. Inl (err k)), func_name = nm, logger = lg, max_retries = 3,
       base_delay = 10, base_delay_is_float = bf, max_delay = 15,
       exceptions = (\<lambda>_. True), jitter = False, random_values = rv,
       float_round = fl\<rparr>)) = 4 \<and>
   snd (retry_with_backoff
      \<lparr>func = (\<lambda>k. Inl (err k)), func_name = nm, logger = lg, max_retries = 3,
       base_delay = 10, base_delay_is_float = bf, max_delay = 15,
       exceptions = (\<lambda>_. True), jitter = False, random_values = rv,
       float_round = fl\<rparr>) = Raise (err 3) \<and>
   filter is_error_log (fst (retry_with_backoff
      \<lparr>func = (\<lambda>k. Inl (err k)), func_name = nm, logger = lg, max_retries = 3,
       base_delay = 10, base_delay_is_float = bf, max_delay = 15,
       exceptions = (\<lambda>_. True), jitter = False, random_values = rv,
       float_round = fl\<rparr>)) =
     [if lg then LoggerError (MaxRetriesMsg nm (err 3)) else Print (MaxRetriesMsg nm (err 3))] \<and>
   map (\<lambda>attempt. (10::real) * 2 ^ attempt) [0, 1, 2] = [10, 20, 40]"
  by (simp add: retry_with_backoff_def retry_loop.simps backoff_delay_def draw_events_def
      log_error_def log_warning_def delay_overflows_def numeral_3_eq_3)

subsection \<open>Without jitter the random source plays no part\<close>

lemma no_jitter_loop:
  assumes "\<not> jitter args"
  shows "retry_loop (args\<lparr>random_values := r1\<rparr>) a = retry_loop (args\<lparr>random_values := r2\<rparr>) a"
proof (induction "nat (max_retries args + 1 - int a)" arbitrary: a)
  case 0
  then show ?case by (simp add: retry_loop_done)
next
  case (Suc m)
  have IH: "retry_loop (args\<lparr>random_values := r1\<rparr>) (a + 1) =
            retry_loop (args\<lparr>random_values := r2\<rparr>) (a + 1)"
    using Suc.hyps(1) [of "a + 1"] Suc.hyps(2) by simp
  show ?case
    using assms IH
    by (simp add: retry_loop.simps [of _ a] backoff_delay_def draw_events_def log_warning_def
        log_error_def Let_def case_prod_beta split: sum.splits)
qed

lemma no_jitter_no_draw:
  assumes "\<not> jitter args"
  shows "RandomDraw \<notin> set (fst (retry_loop args a))"
proof (induction "nat (max_retries args + 1 - int a)" arbitrary: a)
  case 0
  then show ?case by (simp add: retry_loop_done)
next
  case (Suc m)
  have IH: "RandomDraw \<notin> set (fst (retry_loop args (a + 1)))"
    using Suc.hyps(1) [of "a + 1"] Suc.hyps(2) by simp
  show ?case
    using assms IH
    by (simp add: retry_loop.simps [of _ a] draw_events_def log_warning_def
        log_error_def Let_def case_prod_beta split: sum.splits)
qed

text \<open>
  Claim C10. When \<open>jitter\<close> is false, two runs that differ only in the values the random
  source would give have the same effects in the same order (so the same sleeps) and end
  the same way, and no run calls \<open>random.random()\<close> at all.
\<close>

theorem no_jitter_deterministic:
  assumes "\<not> jitter args"
  shows "retry_with_backoff (args\<lparr>random_values := r1\<rparr>) =
           retry_with_backoff (args\<lparr>random_values := r2\<rparr>) \<and>
         RandomDraw \<notin> set (fst (retry_with_backoff args))"
  using no_jitter_loop [OF assms] no_jitter_no_draw [OF assms]
  by (simp add: retry_with_backoff_def)

theorem no_jitter_deterministic_witness:
  "retry_with_backoff
      \<lparr>func = (\<lambda>k. if k < 2 then Inl k else Inr ''value''), func_name = ''fetch'',
       logger = True, max_retries = 5, base_delay = 1, base_delay_is_float = True,
       max_delay = 30, exceptions = (\<lambda>_. True), jitter = False,
       random_values = (\<lambda>_. 1 / 4), float_round = round53\<rparr> =
   retry_with_backoff
      \<lparr>func = (\<lambda>k. if k < 2 then Inl k else Inr ''value''), func_name = ''fetch'',
       logger = True, max_retries = 5, base_delay = 1, base_delay_is_float = True,
       max_delay = 30, exceptions = (\<lambda>_. True), jitter = False,
       random_values = (\<lambda>k. 1 / (2 + real k)), float_round = round53\<rparr>"
  using no_jitter_deterministic
    [of "\<lparr>func = (\<lambda>k. if k < 2 then Inl k else Inr ''value''), func_name = ''fetch'',
       logger = True, max_retries = 5, base_delay = 1, base_delay_is_float = True,
       max_delay = 30, exceptions = (\<lambda>_. True), jitter = False,
       random_values = (\<lambda>_. 0), float_round = round53\<rparr>
       :: (nat, string) retry_args" "\<lambda>_. 1 / 4" "\<lambda>k. 1 / (2 + real k)"]
  by simp

subsection \<open>With and without a logger\<close>

lemma print_loop:
  "retry_loop (args\<lparr>logger := False\<rparr>) a =
     (map print_instead (fst (retry_loop (args\<lparr>logger := True\<rparr>) a)),
      snd (retry_loop (args\<lparr>logger := True\<rparr>) a))"
proof (induction "nat (max_retries args + 1 - int a)" arbitrary: a)
  case 0
  then show ?case by (simp add: retry_loop_done)
next
  case (Suc m)
  have IH: "retry_loop (args\<lparr>logger := False\<rparr>) (a + 1) =
     (map print_instead (fst (retry_loop (args\<lparr>logger := True\<rparr>) (a + 1))),
      snd (retry_loop (args\<lparr>logger := True\<rparr>) (a + 1)))"
    using Suc.hyps(1) [of "a + 1"] Suc.hyps(2) by simp
  show ?case
    using IH
    by (simp add: retry_loop.simps [of _ a] backoff_delay_def draw_events_def log_warning_def
        log_error_def Let_def case_prod_beta split: sum.splits)
qed

lemma printed_append: "printed (xs @ ys) = printed xs @ printed ys"
  by (induction xs rule: printed.induct) simp_all

lemma logged_loop:
  "printed (fst (retry_loop (args\<lparr>logger := True\<rparr>) a)) = []"
proof (induction "nat (max_retries args + 1 - int a)" arbitrary: a)
  case 0
  then show ?case by (simp add: retry_loop_done)
next
  case (Suc m)
  have IH: "printed (fst (retry_loop (args\<lparr>logger := True\<rparr>) (a + 1))) = []"
    using Suc.hyps(1) [of "a + 1"] Suc.hyps(2) by simp
  show ?case
    using IH
    by (simp add: retry_loop.simps [of _ a] draw_events_def log_warning_def
        log_error_def Let_def printed_append case_prod_beta split: sum.splits)
qed

lemma printed_print_instead:
  "printed tr = [] \<Longrightarrow> printed (map print_instead tr) = logged tr"
  by (induction tr rule: logged.induct) simp_all

lemma logged_print_instead: "logged (map print_instead tr) = []"
  by (induction tr rule: logged.induct) simp_all

text \<open>Every call of the operation but the last is followed by a printed message.\<close>

lemma printed_loop:
  "invocations (fst (retry_loop (args\<lparr>logger := False\<rparr>) a)) \<le>
     length (printed (fst (retry_loop (args\<lparr>logger := False\<rparr>) a))) + 1"
proof (induction "nat (max_retries args + 1 - int a)" arbitrary: a)
  case 0
  then show ?case by (simp add: retry_loop_done)
next
  case (Suc m)
  have IH: "invocations (fst (retry_loop (args\<lparr>logger := False\<rparr>) (a + 1))) \<le>
     length (printed (fst (retry_loop (args\<lparr>logger := False\<rparr>) (a + 1)))) + 1"
    using Suc.hyps(1) [of "a + 1"] Suc.hyps(2) by simp
  show ?case
    using IH
    by (simp add: retry_loop.simps [of _ a] draw_events_def log_warning_def
        log_error_def Let_def printed_append case_prod_beta split: sum.splits)
qed

text \<open>The first failure that is caught is reported at once.\<close>

lemma printed_first:
  assumes "0 \<le> max_retries args" and "func args 0 = Inl e" and "exceptions args e"
  shows "printed (fst (retry_loop (args\<lparr>logger := False\<rparr>) 0)) \<noteq> [] \<and>
         hd (printed (fst (retry_loop (args\<lparr>logger := False\<rparr>) 0))) =
           (if max_retries args = 0 then MaxRetriesMsg (func_name args) e
            else AttemptMsg 1 (func_name args) e (backoff_delay args 0))"
  using assms
  by (simp add: retry_loop.simps [of _ 0] draw_events_def log_warning_def
      log_error_def delay_overflows_def Let_def printed_append case_prod_beta)

text \<open>
  Claim C7. For every operation and every configuration, the run without a logger is the
  run with a logger in which each \<open>logger.warning(msg)\<close> and \<open>logger.error(msg)\<close> is
  \<open>print(msg)\<close> of the same message: the messages printed without a logger are exactly
  the messages logged with one, in the same order, and the two runs end the same way.
  The messages are produced: without a logger, every call of the operation but possibly
  the last is followed by a printed message, and a first call that fails with a matched
  exception is reported at once, by the text of the last attempt when \<open>max_retries = 0\<close>
  and by the text of a retry otherwise.
\<close>

theorem fallback_sink_same_messages:
  "retry_with_backoff (args\<lparr>logger := False\<rparr>) =
     (map print_instead (fst (retry_with_backoff (args\<lparr>logger := True\<rparr>))),
      snd (retry_with_backoff (args\<lparr>logger := True\<rparr>))) \<and>
   printed (fst (retry_with_backoff (args\<lparr>logger := False\<rparr>))) =
     logged (fst (retry_with_backoff (args\<lparr>logger := True\<rparr>))) \<and>
   logged (fst (retry_with_backoff (args\<lparr>logger := False\<rparr>))) = [] \<and>
   printed (fst (retry_with_backoff (args\<lparr>logger := True\<rparr>))) = [] \<and>
   invocations (fst (retry_with_backoff (args\<lparr>logger := False\<rparr>))) \<le>
     length (printed (fst (retry_with_backoff (args\<lparr>logger := False\<rparr>)))) + 1 \<and>
   (0 \<le> max_retries args \<and> func args 0 = Inl e \<and> exceptions args e \<longrightarrow>
      printed (fst (retry_with_backoff (args\<lparr>logger := False\<rparr>))) \<noteq> [] \<and>
      hd (printed (fst (retry_with_backoff (args\<lparr>logger := False\<rparr>)))) =
        (if max_retries args = 0 then MaxRetriesMsg (func_name args) e
         else AttemptMsg 1 (func_name args) e (backoff_delay args 0)))"
  using print_loop [of args 0] logged_loop [of args 0] printed_loop [of args 0]
    printed_first [of args e]
  by (simp add: retry_with_backoff_def printed_print_instead logged_print_instead)

theorem fallback_sink_same_messages_witness:
  "printed (fst (retry_with_backoff
      \<lparr>func = (\<lambda>k. Inl k), func_name = ''fetch'', logger = False, max_retries = 1,
       base_delay = 1, base_delay_is_float = False, max_delay = 30,
       exceptions = (\<lambda>_. True), jitter = False, random_values = (\<lambda>_. 0),
       float_round = round53\<rparr> :: nat event list \<times> (nat, unit) outcome)) =
     [AttemptMsg 1 ''fetch'' 0 1, MaxRetriesMsg ''fetch'' 1] \<and>
   logged (fst (retry_with_backoff
      \<lparr>func = (\<lambda>k. Inl k), func_name = ''fetch'', logger = True, max_retries = 1,
       base_delay = 1, base_delay_is_float = False, max_delay = 30,
       exceptions = (\<lambda>_. True), jitter = False, random_values = (\<lambda>_. 0),
       float_round = round53\<rparr> :: nat event list \<times> (nat, unit) outcome)) =
     [AttemptMsg 1 ''fetch'' 0 1, MaxRetriesMsg ''fetch'' 1]"
proof -
  let ?args = "\<lparr>func = (\<lambda>k. Inl k), func_name = ''fetch'', logger = True, max_retries = 1,
       base_delay = 1, base_delay_is_float = False, max_delay = 30,
       exceptions = (\<lambda>_. True), jitter = False, random_values = (\<lambda>_. 0),
       float_round = round53\<rparr> :: (nat, unit) retry_args"
  have logged: "logged (fst (retry_with_backoff ?args)) =
      [AttemptMsg 1 ''fetch'' 0 1, MaxRetriesMsg ''fetch'' 1]"
    by (simp add: retry_with_backoff_def retry_loop.simps backoff_delay_def draw_events_def
        log_warning_def log_error_def delay_overflows_def)
  have "printed (fst (retry_with_backoff (?args\<lparr>logger := False\<rparr>))) =
      logged (fst (retry_with_backoff (?args\<lparr>logger := True\<rparr>)))"
    using fallback_sink_same_messages [of ?args 0] by blast
  with logged show ?thesis
    by simp
qed

subsection \<open>No validation of the configuration\<close>

lemma retry_loop_first_effect:
  "int a \<le> max_retries args \<Longrightarrow> take 1 (fst (retry_loop args a)) = [Invoke]"
  by (simp add: retry_loop.simps [of args a] Let_def case_prod_beta split: sum.splits)

text \<open>
  Claim C6 says that a configuration with \<open>max_retries < 0\<close>, \<open>base_delay \<le> 0\<close> or
  \<open>max_delay \<le> 0\<close> is rejected before any attempt runs. The function has no such check.
  With \<open>base_delay = 0\<close> and \<open>max_delay = 0\<close> an operation that fails once and then succeeds
  is called twice, with a sleep of 0 in between, and its value is returned; with
  \<open>max_retries = - 1\<close> the call returns \<open>None\<close> and raises nothing.
\<close>

theorem config_not_validated_counterexample:
  "retry_with_backoff
      \<lparr>func = (\<lambda>k. if k = 0 then Inl () else Inr k), func_name = ''fetch'', logger = True,
       max_retries = 1, base_delay = 0, base_delay_is_float = False, max_delay = 0,
       exceptions = (\<lambda>_. True), jitter = False, random_values = (\<lambda>_. 0),
       float_round = round53\<rparr> =
     ([Invoke, LoggerWarning (AttemptMsg 1 ''fetch'' () 0), Sleep 0, Invoke], Return 1) \<and>
   retry_with_backoff
      \<lparr>func = (\<lambda>k. Inr k), func_name = ''fetch'', logger = True,
       max_retries = - 1, base_delay = 1, base_delay_is_float = False, max_delay = 30,
       exceptions = (\<lambda>_. True), jitter = False, random_values = (\<lambda>_. 0),
       float_round = round53\<rparr> = ([], ReturnNone :: (unit, nat) outcome)"
  by (simp add: retry_with_backoff_def retry_loop.simps backoff_delay_def draw_events_def
      log_warning_def delay_overflows_def)

text \<open>
  Claim C6, amended. No configuration is rejected before the first attempt. With
  \<open>max_retries < 0\<close> the call returns \<open>None\<close> without calling the operation. With
  \<open>max_retries \<ge> 0\<close> the first effect of the call is the call of the operation, whatever
  \<open>base_delay\<close> and \<open>max_delay\<close> are. A negative delay is refused only by \<open>time.sleep\<close>,
  with a \<open>ValueError\<close>, after the first failed attempt has been reported.
\<close>

theorem config_not_validated:
  "(max_retries args < 0 \<longrightarrow> retry_with_backoff args = ([], ReturnNone)) \<and>
   (0 \<le> max_retries args \<longrightarrow> take 1 (fst (retry_with_backoff args)) = [Invoke]) \<and>
   (0 < max_retries args \<and> func args 0 = Inl e \<and> exceptions args e \<and>
      backoff_delay args 0 < 0 \<longrightarrow>
    retry_with_backoff args =
      (Invoke # draw_events args @
         [log_warning args (AttemptMsg 1 (func_name args) e (backoff_delay args 0))],
       SleepValueError))"
  using retry_loop_sleep_error [of 0 args e] retry_loop_first_effect [of 0 args]
  by (simp add: retry_with_backoff_def retry_loop_done delay_overflows_def)

theorem config_not_validated_witness:
  "retry_with_backoff
      \<lparr>func = (\<lambda>k. Inr k), func_name = ''fetch'', logger = True,
       max_retries = - 2, base_delay = 0, base_delay_is_float = False, max_delay = 0,
       exceptions = (\<lambda>_. True), jitter = False, random_values = (\<lambda>_. 0),
       float_round = round53\<rparr> = ([], ReturnNone :: (unit, nat) outcome) \<and>
   take 1 (fst (retry_with_backoff
      \<lparr>func = (\<lambda>k. Inr k), func_name = ''fetch'', logger = True,
       max_retries = 2, base_delay = - 1, base_delay_is_float = False, max_delay = 0,
       exceptions = (\<lambda>_. True), jitter = False, random_values = (\<lambda>_. 0),
       float_round = round53\<rparr>
       :: unit event list \<times> (unit, nat) outcome)) = [Invoke] \<and>
   retry_with_backoff
      \<lparr>func = (\<lambda>k. Inl k), func_name = ''fetch'', logger = False,
       max_retries = 2, base_delay = - 1, base_delay_is_float = False, max_delay = 30,
       exceptions = (\<lambda>_. True), jitter = False, random_values = (\<lambda>_. 0),
       float_round = round53\<rparr> =
     ([Invoke, Print (AttemptMsg 1 ''fetch'' 0 (- 1))], SleepValueError :: (nat, unit) outcome)"
proof -
  let ?a1 = "\<lparr>func = (\<lambda>k. Inr k), func_name = ''fetch'', logger = True,
       max_retries = - 2, base_delay = 0, base_delay_is_float = False, max_delay = 0,
       exceptions = (\<lambda>_. True), jitter = False, random_values = (\<lambda>_. 0),
       float_round = round53\<rparr> :: (unit, nat) retry_args"
  let ?a2 = "\<lparr>func = (\<lambda>k. Inr k), func_name = ''fetch'', logger = True,
       max_retries = 2, base_delay = - 1, base_delay_is_float = False, max_delay = 0,
       exceptions = (\<lambda>_. True), jitter = False, random_values = (\<lambda>_. 0),
       float_round = round53\<rparr> :: (unit, nat) retry_args"
  let ?a3 = "\<lparr>func = (\<lambda>k. Inl k), func_name = ''fetch'', logger = False,
       max_retries = 2, base_delay = - 1, base_delay_is_float = False, max_delay = 30,
       exceptions = (\<lambda>_. True), jitter = False, random_values = (\<lambda>_. 0),
       float_round = round53\<rparr> :: (nat, unit) retry_args"
  have "retry_with_backoff ?a1 = ([], ReturnNone)"
    using config_not_validated [of ?a1] by simp
  moreover have "take 1 (fst (retry_with_backoff ?a2)) = [Invoke]"
    using config_not_validated [of ?a2] by simp
  moreover have "retry_with_backoff ?a3 =
      ([Invoke, Print (AttemptMsg 1 ''fetch'' 0 (- 1))], SleepValueError)"
    using config_not_validated [of ?a3 0]
    by (simp add: backoff_delay_def draw_events_def log_warning_def)
  ultimately show ?thesis by simp
qed

section \<open>Properties of the ticker list\<close>

lemma length_fallback: "length get_ndaq_tickers_fallback = 85"
  by (simp add: get_ndaq_tickers_fallback_def)

text \<open>
  Claim C8 says that \<open>get_ndaq_tickers\<close> returns the fallback list for any exception
  raised during fetching or parsing, and never raises. The handler is
  \<open>except Exception\<close>: a \<open>KeyboardInterrupt\<close> raised during the fetch is not an instance
  of \<open>Exception\<close> and leaves the function. So does the exception of a \<open>print\<close> that fails
  inside the handler, here after a \<open>ConnectionError\<close> of the fetch.
\<close>

theorem get_ndaq_tickers_result_counterexample:
  "get_ndaq_tickers
      \<lparr>scraped = Inl ''KeyboardInterrupt'', isalpha = isalpha_ascii, isupper = isupper_ascii,
       is_Exception = (\<lambda>e. e \<noteq> ''KeyboardInterrupt'' \<and> e \<noteq> ''SystemExit''),
       print_error = (\<lambda>_. None)\<rparr> = ([], Inl ''KeyboardInterrupt'') \<and>
   get_ndaq_tickers
      \<lparr>scraped = Inl ''ConnectionError'', isalpha = isalpha_ascii, isupper = isupper_ascii,
       is_Exception = (\<lambda>e. e \<noteq> ''KeyboardInterrupt'' \<and> e \<noteq> ''SystemExit''),
       print_error = (\<lambda>_. Some ''BrokenPipeError'')\<rparr> = ([], Inl ''BrokenPipeError'')"
  by (simp add: get_ndaq_tickers_def try_body_def print_then_def)

text \<open>
  Claim C8, amended. As long as \<open>print\<close> does not raise: \<open>get_ndaq_tickers\<close> returns the
  sorted list of the distinct scraped tickers if and only if the length of that list is
  between 80 and 120; when the length is outside that range, and when fetching or parsing
  raised an exception that is an instance of \<open>Exception\<close>, it returns the hardcoded list of
  \<open>get_ndaq_tickers_fallback\<close>, and it does not raise; an exception that is not an
  instance of \<open>Exception\<close> is not caught and reaches the caller.
\<close>

theorem get_ndaq_tickers_result:
  assumes "\<forall>n. print_error env n = None"
  shows "(scraped env = Inr cells \<longrightarrow>
            snd (get_ndaq_tickers env) =
              Inr (if 80 \<le> length (sort (remdups (collect_tickers env cells))) \<and>
                      length (sort (remdups (collect_tickers env cells))) \<le> 120
                   then sort (remdups (collect_tickers env cells))
                   else get_ndaq_tickers_fallback) \<and>
            (snd (get_ndaq_tickers env) = Inr (sort (remdups (collect_tickers env cells))) \<longleftrightarrow>
               80 \<le> length (sort (remdups (collect_tickers env cells))) \<and>
               length (sort (remdups (collect_tickers env cells))) \<le> 120)) \<and>
         (scraped env = Inl e \<and> is_Exception env e \<longrightarrow>
            snd (get_ndaq_tickers env) = Inr get_ndaq_tickers_fallback) \<and>
         (scraped env = Inl e \<and> \<not> is_Exception env e \<longrightarrow>
            snd (get_ndaq_tickers env) = Inl e)"
proof -
  let ?tickers = "sort (remdups (collect_tickers env cells))"
  have differ: "get_ndaq_tickers_fallback \<noteq> ?tickers"
    if "\<not> (80 \<le> length ?tickers \<and> length ?tickers \<le> 120)"
  proof
    assume "get_ndaq_tickers_fallback = ?tickers"
    then have "length ?tickers = 85"
      using length_fallback by simp
    with that show False by simp
  qed
  have scraped: "snd (get_ndaq_tickers env) =
      Inr (if 80 \<le> length ?tickers \<and> length ?tickers \<le> 120
           then ?tickers else get_ndaq_tickers_fallback)"
    if "scraped env = Inr cells"
    using that assms by (simp add: get_ndaq_tickers_def try_body_def print_then_def Let_def)
  have caught: "snd (get_ndaq_tickers env) = Inr get_ndaq_tickers_fallback"
    if "scraped env = Inl e" "is_Exception env e"
    using that assms by (simp add: get_ndaq_tickers_def try_body_def print_then_def)
  have passed: "snd (get_ndaq_tickers env) = Inl e"
    if "scraped env = Inl e" "\<not> is_Exception env e"
    using that by (simp add: get_ndaq_tickers_def try_body_def)
  show ?thesis
    using scraped caught passed differ by auto
qed

theorem get_ndaq_tickers_result_witness:
  "length (projr (snd (get_ndaq_tickers
      \<lparr>scraped = Inr (map str_lit [''Ticker'', ''NAME'', ''AAPL''] @ get_ndaq_tickers_fallback),
       isalpha = isalpha_ascii, isupper = isupper_ascii,
       is_Exception = (\<lambda>e. e \<noteq> ''KeyboardInterrupt'' \<and> e \<noteq> ''SystemExit''),
       print_error = (\<lambda>_. None)\<rparr>))) = 85 \<and>
   take 3 (projr (snd (get_ndaq_tickers
      \<lparr>scraped = Inr (map str_lit [''Ticker'', ''NAME'', ''AAPL''] @ get_ndaq_tickers_fallback),
       isalpha = isalpha_ascii, isupper = isupper_ascii,
       is_Exception = (\<lambda>e. e \<noteq> ''KeyboardInterrupt'' \<and> e \<noteq> ''SystemExit''),
       print_error = (\<lambda>_. None)\<rparr>))) = map str_lit [''AAPL'', ''ABNB'', ''ADBE''] \<and>
   snd (get_ndaq_tickers
      \<lparr>scraped = Inr (map str_lit [''MSFT'', ''AAPL'', ''MSFT'']),
       isalpha = isalpha_ascii, isupper = isupper_ascii,
       is_Exception = (\<lambda>e. e \<noteq> ''KeyboardInterrupt'' \<and> e \<noteq> ''SystemExit''),
       print_error = (\<lambda>_. None)\<rparr>) = Inr get_ndaq_tickers_fallback \<and>
   snd (get_ndaq_tickers
      \<lparr>scraped = Inl ''ConnectionError'', isalpha = isalpha_ascii, isupper = isupper_ascii,
       is_Exception = (\<lambda>e. e \<noteq> ''KeyboardInterrupt'' \<and> e \<noteq> ''SystemExit''),
       print_error = (\<lambda>_. None)\<rparr>) = Inr get_ndaq_tickers_fallback \<and>
   snd (get_ndaq_tickers
      \<lparr>scraped = Inl ''SystemExit'', isalpha = isalpha_ascii, isupper = isupper_ascii,
       is_Exception = (\<lambda>e. e \<noteq> ''KeyboardInterrupt'' \<and> e \<noteq> ''SystemExit''),
       print_error = (\<lambda>_. None)\<rparr>) = Inl ''SystemExit''"
proof -
  let ?cells = "map str_lit [''Ticker'', ''NAME'', ''AAPL''] @ get_ndaq_tickers_fallback"
  let ?few = "map str_lit [''MSFT'', ''AAPL'', ''MSFT'']"
  let ?exc = "\<lambda>e. e \<noteq> ''KeyboardInterrupt'' \<and> e \<noteq> ''SystemExit''"
  let ?env = "\<lambda>s. \<lparr>scraped = s, isalpha = isalpha_ascii, isupper = isupper_ascii,
       is_Exception = ?exc, print_error = (\<lambda>_. None)\<rparr> :: string scrape_env"
  have collect: "collect_tickers (?env s) cells = collect_tickers (?env (Inr [])) cells" for s cells
    by (simp add: collect_tickers_def)
  have len: "length (sort (remdups (collect_tickers (?env (Inr [])) ?cells))) = 85"
    by code_simp
  have front: "take 3 (sort (remdups (collect_tickers (?env (Inr [])) ?cells))) =
      map str_lit [''AAPL'', ''ABNB'', ''ADBE'']"
    by code_simp
  have few: "length (sort (remdups (collect_tickers (?env (Inr [])) ?few))) = 2"
    by code_simp
  have many: "snd (get_ndaq_tickers (?env (Inr ?cells))) =
      Inr (sort (remdups (collect_tickers (?env (Inr [])) ?cells)))"
    using get_ndaq_tickers_result [of "?env (Inr ?cells)" ?cells]
    by (simp only: collect [of "Inr ?cells"] len) simp
  have fallback: "snd (get_ndaq_tickers (?env (Inr ?few))) = Inr get_ndaq_tickers_fallback"
    using get_ndaq_tickers_result [of "?env (Inr ?few)" ?few]
    by (simp only: collect [of "Inr ?few"] few) simp
  have caught: "snd (get_ndaq_tickers (?env (Inl ''ConnectionError''))) =
      Inr get_ndaq_tickers_fallback"
    using get_ndaq_tickers_result [of "?env (Inl ''ConnectionError'')" _ "''ConnectionError''"]
    by simp
  have passed: "snd (get_ndaq_tickers (?env (Inl ''SystemExit''))) = Inl ''SystemExit''"
    using get_ndaq_tickers_result [of "?env (Inl ''SystemExit'')" _ "''SystemExit''"]
    by simp
  show ?thesis
    by (simp only: many fallback caught passed sum.sel len front)
qed

end
